theory Spec2Isabelle
  imports Complex_Main
begin

section \<open>Data shapes of \<open>saleor/payment/interface.py\<close>\<close>

text \<open>
  The module is a collection of dataclasses. Each dataclass is a record with the
  source's field names and order; \<open>Optional[T]\<close> is \<open>T option\<close>, \<open>List[T]\<close> is
  \<open>T list\<close>, \<open>Dict[str, T]\<close> is an association list. \<open>Decimal\<close> amounts are
  rationals: the dataclasses only carry them, and the sums, products and comparisons of
  the refund calculator below are exact on money amounts.
\<close>

type_synonym decimal = rat

text \<open>\<open>JSONValue\<close> / \<open>JSONType\<close>: opaque payloads that the module only transports.\<close>

datatype json =
    JNull
  | JBool bool
  | JInt int
  | JFloat rat
  | JStr string
  | JList "json list"
  | JDict "(string \<times> json) list"

record PaymentMethodInfo =
  first_4 :: "string option"
  last_4 :: "string option"
  exp_year :: "int option"
  exp_month :: "int option"
  brand :: "string option"
  name :: "string option"
  type :: "string option"

record GatewayResponse =
  is_success :: bool
  action_required :: bool
  kind :: string
  amount :: decimal
  currency :: string
  transaction_id :: string
  error :: "string option"
  customer_id :: "string option"
  payment_method_info :: "PaymentMethodInfo option"
  raw_response :: "(string \<times> string) list option"
  action_required_data :: "json option"
  transaction_already_processed :: bool
  psp_reference :: "string option"

text \<open>
  The generated \<open>__init__\<close> of \<open>GatewayResponse\<close>: seven required arguments in
  field order, the remaining fields at their declared defaults. There is no
  \<open>__post_init__\<close>: nothing is checked or normalised.
\<close>

definition GatewayResponse_init ::
  "bool \<Rightarrow> bool \<Rightarrow> string \<Rightarrow> decimal \<Rightarrow> string \<Rightarrow> string \<Rightarrow> string option \<Rightarrow> GatewayResponse"
where
  "GatewayResponse_init is_success' action_required' kind' amount' currency' transaction_id' error' =
     \<lparr> is_success = is_success',
       action_required = action_required',
       kind = kind',
       amount = amount',
       currency = currency',
       transaction_id = transaction_id',
       error = error',
       customer_id = None,
       payment_method_info = None,
       raw_response = None,
       action_required_data = None,
       transaction_already_processed = False,
       psp_reference = None \<rparr>"

text \<open>
  The property the specification words as "error message (mutually exclusive with
  success)": the error is present exactly when the response is not a success.
\<close>

definition error_excludes_success :: "GatewayResponse \<Rightarrow> bool" where
  "error_excludes_success r = ((GatewayResponse.error r \<noteq> None) = (\<not> is_success r))"

record AddressData =
  first_name :: string
  last_name :: string
  company_name :: string
  street_address_1 :: string
  street_address_2 :: string
  city :: string
  city_area :: string
  postal_code :: string
  country :: string
  country_area :: string
  phone :: string
  metadata :: "(string \<times> json) list option"
  private_metadata :: "(string \<times> json) list option"

datatype StorePaymentMethodEnum = NONE | ON_SESSION | OFF_SESSION

record PaymentLineData =
  amount :: decimal
  variant_id :: int
  product_name :: string
  product_sku :: "string option"
  quantity :: int

record PaymentLinesData =
  shipping_amount :: decimal
  voucher_amount :: decimal
  lines :: "PaymentLineData list"

text \<open>
  Modelled from the spec: \<open>OrderLineInfo\<close> and \<open>FulfillmentLineData\<close> are imported
  from \<open>..order\<close>, which is not part of the sources. The specification says of a line
  marked for refund only that it has a unit amount and a quantity to refund.
\<close>

record RefundLine =
  unit_amount :: decimal
  quantity_to_refund :: int

type_synonym OrderLineInfo = RefundLine
type_synonym FulfillmentLineData = RefundLine

record RefundData =
  order_lines_to_refund :: "OrderLineInfo list"
  fulfillment_lines_to_refund :: "FulfillmentLineData list"
  refund_shipping_costs :: bool
  refund_amount_is_automatically_calculated :: bool

text \<open>\<open>RefundData()\<close>: every field has a default.\<close>

definition RefundData_default :: RefundData where
  "RefundData_default =
     \<lparr> order_lines_to_refund = [],
       fulfillment_lines_to_refund = [],
       refund_shipping_costs = False,
       refund_amount_is_automatically_calculated = True \<rparr>"

record TransactionData =
  token :: string
  is_success :: bool
  kind :: string
  gateway_response :: json
  amount :: "(string \<times> string) list"

subsection \<open>\<open>PaymentData\<close> and its lazily resolved \<open>lines_data\<close>\<close>

text \<open>
  What evaluating \<open>self.__resolve_lines_data()\<close> can do besides returning a
  \<open>PaymentLinesData\<close>: the attribute may be \<open>None\<close> (the declared default of the
  \<open>InitVar\<close>), and calling \<open>None\<close> raises \<open>TypeError\<close>; a callable may raise an
  exception of its own.
\<close>

datatype py_error = TypeError | Raised string

text \<open>
  A resolver is a Python callable without arguments. It may read and change the
  program's state (type \<open>'w\<close>: database, caches, ...), so two invocations need not return
  the same lines.
\<close>

type_synonym 'w resolver = "'w \<Rightarrow> (py_error + PaymentLinesData) \<times> 'w"

text \<open>
  The instance attributes of a \<open>PaymentData\<close> object: the dataclass fields, the
  name-mangled attribute \<open>_PaymentData__resolve_lines_data\<close> that \<open>__post_init__\<close>
  stores, and the entry \<open>lines_data\<close> of the instance \<open>__dict__\<close> in which
  \<open>functools.cached_property\<close> keeps the value once computed (absent =
  \<open>None\<close>).
\<close>

record 'w PaymentData =
  gateway :: string
  amount :: decimal
  currency :: string
  billing :: "AddressData option"
  shipping :: "AddressData option"
  payment_id :: int
  graphql_payment_id :: string
  order_id :: "string option"
  customer_ip_address :: "string option"
  customer_email :: string
  order_channel_slug :: "string option"
  token :: "string option"
  customer_id :: "string option"
  reuse_source :: bool
  data :: "(string \<times> json) list option"
  graphql_customer_id :: "string option"
  checkout_token :: "string option"
  checkout_metadata :: "(string \<times> json) list option"
  store_payment_method :: StorePaymentMethodEnum
  payment_metadata :: "(string \<times> string) list"
  psp_reference :: "string option"
  refund_data :: "RefundData option"
  transactions :: "TransactionData list"
  resolve_lines_data :: "'w resolver option"
  cached_lines_data :: "PaymentLinesData option"

text \<open>
  The generated \<open>__init__\<close> followed by \<open>__post_init__\<close>: the ten required
  arguments, the optional fields at their defaults, the resolver as passed (default
  \<open>None\<close>). A new object has no cached \<open>lines_data\<close>.
\<close>

definition PaymentData_init ::
  "string \<Rightarrow> decimal \<Rightarrow> string \<Rightarrow> AddressData option \<Rightarrow> AddressData option \<Rightarrow> int \<Rightarrow> string
     \<Rightarrow> string option \<Rightarrow> string option \<Rightarrow> string \<Rightarrow> 'w resolver option \<Rightarrow> 'w PaymentData"
where
  "PaymentData_init gateway' amount' currency' billing' shipping' payment_id' graphql_payment_id'
       order_id' customer_ip_address' customer_email' resolve' =
     \<lparr> gateway = gateway',
       amount = amount',
       currency = currency',
       billing = billing',
       shipping = shipping',
       payment_id = payment_id',
       graphql_payment_id = graphql_payment_id',
       order_id = order_id',
       customer_ip_address = customer_ip_address',
       customer_email = customer_email',
       order_channel_slug = None,
       token = None,
       customer_id = None,
       reuse_source = False,
       data = None,
       graphql_customer_id = None,
       checkout_token = None,
       checkout_metadata = None,
       store_payment_method = NONE,
       payment_metadata = [],
       psp_reference = None,
       refund_data = None,
       transactions = [],
       resolve_lines_data = resolve',
       cached_lines_data = None \<rparr>"

text \<open>
  The state a read of \<open>lines_data\<close> runs in: the object, the rest of the program's
  state, and a counter of how often the resolver has been invoked (a ghost field: it
  records the calls, the code does not read it).
\<close>

record 'w heap =
  obj :: "'w PaymentData"
  world :: 'w
  resolver_calls :: nat

text \<open>
  One read of the property \<open>lines_data\<close>. \<open>cached_property.__get__\<close> looks the name
  up in the instance \<open>__dict__\<close>; on a miss it calls the wrapped method, which
  evaluates \<open>self.__resolve_lines_data()\<close>, and stores the value returned. When the
  call raises, nothing is stored and the exception reaches the reader.
\<close>

definition lines_data :: "'w heap \<Rightarrow> (py_error + PaymentLinesData) \<times> 'w heap" where
  "lines_data h =
     (case cached_lines_data (obj h) of
        Some v \<Rightarrow> (Inr v, h)
      | None \<Rightarrow>
          (case resolve_lines_data (obj h) of
             None \<Rightarrow> (Inl TypeError, h)
           | Some f \<Rightarrow>
               (case f (world h) of
                  (Inl e, w') \<Rightarrow>
                    (Inl e, h\<lparr>world := w', resolver_calls := Suc (resolver_calls h)\<rparr>)
                | (Inr v, w') \<Rightarrow>
                    (Inr v, h\<lparr>obj := (obj h)\<lparr>cached_lines_data := Some v\<rparr>,
                              world := w',
                              resolver_calls := Suc (resolver_calls h)\<rparr>))))"

text \<open>\<open>n\<close> reads in a row: the results in order, and the state after the last.\<close>

fun lines_data_reads :: "nat \<Rightarrow> 'w heap \<Rightarrow> (py_error + PaymentLinesData) list \<times> 'w heap" where
  "lines_data_reads 0 h = ([], h)"
| "lines_data_reads (Suc n) h =
     (case lines_data h of
        (r, h') \<Rightarrow> (case lines_data_reads n h' of (rs, h'') \<Rightarrow> (r # rs, h'')))"

text \<open>Resolvers used as concrete inputs below.\<close>

definition failing_resolver :: "nat resolver" where
  "failing_resolver w = (Inl (Raised ''database unavailable''), Suc w)"

definition counting_resolver :: "nat resolver" where
  "counting_resolver w =
     (Inr \<lparr> shipping_amount = of_nat w, voucher_amount = 0, lines = [] \<rparr>, Suc w)"

definition new_heap :: "nat resolver option \<Rightarrow> nat heap" where
  "new_heap f =
     \<lparr> obj = PaymentData_init ''dummy'' 10 ''USD'' None None 1 ''UGF5bWVudDox'' None None
               ''customer@example.com'' f,
       world = 0,
       resolver_calls = 0 \<rparr>"

text \<open>
  What the first invocation of \<open>counting_resolver\<close> returns, and the state after
  the first read of a new object with that resolver.
\<close>

definition first_lines :: PaymentLinesData where
  "first_lines = \<lparr> shipping_amount = 0, voucher_amount = 0, lines = [] \<rparr>"

definition heap_after_first_read :: "nat heap" where
  "heap_after_first_read =
     (new_heap (Some counting_resolver))
       \<lparr> obj := (obj (new_heap (Some counting_resolver)))\<lparr>cached_lines_data := Some first_lines\<rparr>,
         world := 1,
         resolver_calls := 1 \<rparr>"

section \<open>Transaction Ledger\<close>

text \<open>
  Modelled from the spec: the Transaction Ledger (\<open>append\<close>) is not in the sources,
  which define data shapes only; \<open>TransactionItem\<close> and \<open>TransactionEvent\<close> are
  imported from \<open>..payment.models\<close>. What follows is section 3 and section 4.1 of the
  specification: a transaction has running totals and a list of events, and
  \<open>append\<close> "fails with \<open>InvariantViolation\<close> if the resulting totals would violate
  the amount invariants; otherwise atomically appends the event and returns the updated
  aggregate view".
\<close>

datatype EventType = Authorization | Charge | Refund | Cancel | Failure

text \<open>
  Modelled from the spec: "the actor that created it (system request vs gateway
  confirmation)".
\<close>

datatype Actor = SystemRequest | GatewayConfirmation

text \<open>
  Modelled from the spec: a \<open>TransactionEvent\<close> has a "type (authorization, charge,
  refund, cancel, failure), amount, optional external reference, optional human-readable
  message, timestamp, and the actor that created it".
\<close>

record TransactionEvent =
  ev_type :: EventType
  ev_amount :: decimal
  ev_reference :: "string option"
  ev_message :: "string option"
  ev_timestamp :: nat
  ev_actor :: Actor

text \<open>
  Modelled from the spec: the "running totals (authorized, charged, refunded, cancelled
  amounts)" of a transaction.
\<close>

record Totals =
  authorized :: decimal
  charged :: decimal
  refunded :: decimal
  cancelled :: decimal

text \<open>
  Modelled from the spec: a \<open>Transaction\<close> has an "identity (internal id, external psp
  reference assigned by the gateway, nullable until first confirmed action), owning
  gateway/app identifier, currency, running totals, list of events".
\<close>

record Transaction =
  tx_id :: nat
  tx_psp_reference :: "string option"
  tx_gateway :: string
  tx_currency :: string
  totals :: Totals
  events :: "TransactionEvent list"

text \<open>
  Modelled from the spec: the errors of section 7 that are surfaced to a caller
  (\<open>ReferenceConflict\<close> and \<open>DuplicateAction\<close> are recorded, not thrown).
\<close>

datatype core_error = UnknownGateway | InvariantViolation | GatewayUnreachable | NothingToRefund

text \<open>
  Modelled from the spec: the amount invariants of section 3, "charged + refunded +
  cancelled amounts never exceed authorized amount; refunded amount never exceeds
  charged amount".
\<close>

definition amount_invariants :: "Totals \<Rightarrow> bool" where
  "amount_invariants t \<longleftrightarrow>
     charged t + refunded t + cancelled t \<le> authorized t \<and> refunded t \<le> charged t"

text \<open>
  Modelled from the spec: how one event changes the totals. The specification names
  the event types and the four totals and does not say more; the reading here adds the
  event's amount to the total of its type, and a failure event changes nothing. The
  ledger below takes the step as a parameter, so what is proved of \<open>append\<close> holds
  for every reading.
\<close>

type_synonym totals_step = "TransactionEvent \<Rightarrow> Totals \<Rightarrow> Totals"

definition add_event_amount :: totals_step where
  "add_event_amount ev t =
     (case ev_type ev of
        Authorization \<Rightarrow> t\<lparr>authorized := authorized t + ev_amount ev\<rparr>
      | Charge \<Rightarrow> t\<lparr>charged := charged t + ev_amount ev\<rparr>
      | Refund \<Rightarrow> t\<lparr>refunded := refunded t + ev_amount ev\<rparr>
      | Cancel \<Rightarrow> t\<lparr>cancelled := cancelled t + ev_amount ev\<rparr>
      | Failure \<Rightarrow> t)"

text \<open>
  Modelled from the spec: \<open>append(transaction_id, event)\<close>, on the ledger's entry
  for \<open>transaction_id\<close>. The result is the value returned to the caller (the updated
  transaction, or the error) paired with the entry the ledger holds afterwards.
\<close>

definition append ::
  "totals_step \<Rightarrow> Transaction \<Rightarrow> TransactionEvent \<Rightarrow> (core_error + Transaction) \<times> Transaction"
where
  "append step t ev =
     (let t' = t\<lparr>totals := step ev (totals t), events := events t @ [ev]\<rparr>
      in if amount_invariants (totals t') then (Inr t', t') else (Inl InvariantViolation, t))"

text \<open>
  A sequence of appends against one transaction, each on the entry the previous one
  left: for every event the entry before, the value returned and the entry after.
\<close>

fun append_all ::
  "totals_step \<Rightarrow> Transaction \<Rightarrow> TransactionEvent list
     \<Rightarrow> (Transaction \<times> TransactionEvent \<times> (core_error + Transaction) \<times> Transaction) list"
where
  "append_all step t [] = []"
| "append_all step t (ev # evs) =
     (case append step t ev of (r, s) \<Rightarrow> (t, ev, r, s) # append_all step s evs)"

text \<open>
  What C1 says of one append, as a check on (entry before, event, value returned, entry
  after): a success returns the new entry, which is the old one with the stepped totals
  and the event at the end of its list, and its totals are within the bounds; a failure
  is \<open>InvariantViolation\<close>, happens when the stepped totals are out of the bounds,
  and leaves the entry as it was.
\<close>

fun append_outcome_ok ::
  "totals_step \<Rightarrow> Transaction \<times> TransactionEvent \<times> (core_error + Transaction) \<times> Transaction \<Rightarrow> bool"
where
  "append_outcome_ok step (t, ev, Inr t', s) \<longleftrightarrow>
     s = t' \<and> totals t' = step ev (totals t) \<and> events t' = events t @ [ev] \<and>
     amount_invariants (totals t')"
| "append_outcome_ok step (t, ev, Inl e, s) \<longleftrightarrow>
     e = InvariantViolation \<and> s = t \<and> \<not> amount_invariants (step ev (totals t))"

text \<open>
  Modelled from the spec: a transaction as created, before any event: no reference yet,
  all totals zero, no events.
\<close>

definition new_transaction :: "nat \<Rightarrow> string \<Rightarrow> string \<Rightarrow> Transaction" where
  "new_transaction i g c =
     \<lparr> tx_id = i, tx_psp_reference = None, tx_gateway = g, tx_currency = c,
       totals = \<lparr> authorized = 0, charged = 0, refunded = 0, cancelled = 0 \<rparr>,
       events = [] \<rparr>"

text \<open>An event of a gateway confirmation without reference and message.\<close>

definition event :: "EventType \<Rightarrow> decimal \<Rightarrow> nat \<Rightarrow> TransactionEvent" where
  "event ty a ts =
     \<lparr> ev_type = ty, ev_amount = a, ev_reference = None, ev_message = None,
       ev_timestamp = ts, ev_actor = GatewayConfirmation \<rparr>"

section \<open>Refund Calculator\<close>

text \<open>
  Modelled from the spec: \<open>computeRefundAmount\<close> is not in the sources (only the shape
  of its argument \<open>RefundData\<close> is). Section 4.4: it "sums, for each order line and
  fulfillment line marked for refund, \<open>unit_amount * quantity_to_refund\<close>, adds shipping
  cost if \<open>refund_shipping_costs\<close> is set, and caps the result at the transaction's
  currently refundable amount (charged - already-refunded). Fails with
  \<open>NothingToRefund\<close> if the computed amount is zero and no explicit override was
  supplied." The authoritative line data is the resolved \<open>PaymentLinesData\<close>, whose
  \<open>shipping_amount\<close> is the shipping cost; the cap needs the transaction's totals, which
  are passed as a third argument. An explicit override is supplied exactly when
  \<open>refund_amount_is_automatically_calculated\<close> is false.
\<close>

definition lines_amount :: "RefundLine list \<Rightarrow> decimal" where
  "lines_amount ls = sum_list (map (\<lambda>l. unit_amount l * of_int (quantity_to_refund l)) ls)"

text \<open>
  Modelled from the spec: the sum over the order lines and the fulfillment lines, plus
  the shipping cost when \<open>refund_shipping_costs\<close> is set.
\<close>

definition requested_amount :: "RefundData \<Rightarrow> PaymentLinesData \<Rightarrow> decimal" where
  "requested_amount rd ld =
     lines_amount (order_lines_to_refund rd) + lines_amount (fulfillment_lines_to_refund rd)
       + (if refund_shipping_costs rd then shipping_amount ld else 0)"

text \<open>
  Modelled from the spec: "the transaction's currently refundable amount (charged -
  already-refunded)".
\<close>

definition refundable_amount :: "Totals \<Rightarrow> decimal" where
  "refundable_amount t = charged t - refunded t"

text \<open>
  Modelled from the spec: the computed amount is the sum capped at the refundable
  amount.
\<close>

definition computed_amount :: "RefundData \<Rightarrow> PaymentLinesData \<Rightarrow> Totals \<Rightarrow> decimal" where
  "computed_amount rd ld t = min (requested_amount rd ld) (refundable_amount t)"

text \<open>
  Modelled from the spec: \<open>computeRefundAmount\<close> returns the computed amount, and
  fails with \<open>NothingToRefund\<close> when that amount is zero and no explicit override was
  supplied.
\<close>

definition computeRefundAmount ::
  "RefundData \<Rightarrow> PaymentLinesData \<Rightarrow> Totals \<Rightarrow> core_error + decimal"
where
  "computeRefundAmount rd ld t =
     (if computed_amount rd ld t = 0 \<and> refund_amount_is_automatically_calculated rd
      then Inl NothingToRefund
      else Inr (computed_amount rd ld t))"

text \<open>Totals and transactions used as concrete inputs below.\<close>

definition charged_100_refunded_20 :: Totals where
  "charged_100_refunded_20 = \<lparr> authorized = 150, charged = 100, refunded = 20, cancelled = 0 \<rparr>"

definition authorized_100 :: Transaction where
  "authorized_100 =
     (new_transaction 1 ''app.gateway'' ''USD'')
       \<lparr> totals := \<lparr> authorized = 100, charged = 0, refunded = 0, cancelled = 0 \<rparr>,
         events := [event Authorization 100 1] \<rparr>"

definition charged_60 :: Transaction where
  "charged_60 =
     authorized_100
       \<lparr> totals := \<lparr> authorized = 100, charged = 60, refunded = 0, cancelled = 0 \<rparr>,
         events := [event Authorization 100 1, event Charge 60 2] \<rparr>"

section \<open>Properties of the dataclasses\<close>

subsection \<open>\<open>GatewayResponse\<close>\<close>

text \<open>
  C5, as stated: for every \<open>GatewayResponse\<close> the error is non-null exactly when
  \<open>is_success\<close> is false. The dataclass accepts a successful response that carries an
  error message.
\<close>

theorem GatewayResponse_success_with_error_counterexample:
  "\<not> error_excludes_success
       (GatewayResponse_init True False ''capture'' 10 ''USD'' ''txn-1'' (Some ''card declined''))"
  by (simp add: error_excludes_success_def GatewayResponse_init_def)

text \<open>
  C5, amended: a \<open>GatewayResponse\<close> holds the success flag and the optional error
  exactly as they were passed to its constructor, which checks nothing; so the error is
  non-null exactly when \<open>is_success\<close> is false only for the responses whose creator
  passed such a pair, and each of the four combinations is a \<open>GatewayResponse\<close>.
\<close>

theorem GatewayResponse_init_keeps_success_and_error:
  "GatewayResponse.is_success (GatewayResponse_init s a k m c t e) = s \<and>
   GatewayResponse.error (GatewayResponse_init s a k m c t e) = e \<and>
   error_excludes_success (GatewayResponse_init s a k m c t e) = ((e \<noteq> None) = (\<not> s))"
  by (simp add: error_excludes_success_def GatewayResponse_init_def)

subsection \<open>\<open>PaymentData.lines_data\<close>\<close>

lemma lines_data_cached:
  "cached_lines_data (obj h) = Some v \<Longrightarrow> lines_data h = (Inr v, h)"
  by (simp add: lines_data_def)

lemma lines_data_reads_cached:
  "cached_lines_data (obj h) = Some v \<Longrightarrow> lines_data_reads n h = (replicate n (Inr v), h)"
  by (induction n) (simp_all add: lines_data_cached)

lemma lines_data_no_resolver:
  "cached_lines_data (obj h) = None \<Longrightarrow> resolve_lines_data (obj h) = None
     \<Longrightarrow> lines_data h = (Inl TypeError, h)"
  by (simp add: lines_data_def)

lemma lines_data_raise_caches_nothing:
  "cached_lines_data (obj h) = None \<Longrightarrow> lines_data h = (Inl e, h1)
     \<Longrightarrow> cached_lines_data (obj h1) = None"
  by (auto simp: lines_data_def split: option.splits prod.splits sum.splits)

text \<open>
  C10, as stated: for every \<open>PaymentData\<close> value the resolver is invoked at most
  once. A resolver that raises leaves nothing in the cache, so each read invokes it
  again: after two reads it has been invoked twice.
\<close>

theorem lines_data_raising_resolver_counterexample:
  "\<not> resolver_calls (snd (lines_data_reads 2 (new_heap (Some failing_resolver)))) \<le> 1"
  by (simp add: numeral_2_eq_2 lines_data_def new_heap_def PaymentData_init_def
      failing_resolver_def)

text \<open>
  C10, amended: for every \<open>PaymentData\<close> value whose resolver returns a
  \<open>PaymentLinesData\<close> on the first read of \<open>lines_data\<close>, that read invokes the
  resolver once, and every subsequent read returns the identical cached value without
  invoking the resolver again: \<open>n\<close> further reads all return it and leave the object,
  the program state and the number of invocations as they were after the first read.
\<close>

theorem lines_data_resolved_once:
  assumes "cached_lines_data (obj h) = None" and "lines_data h = (Inr v, h1)"
  shows "resolver_calls h1 = Suc (resolver_calls h) \<and>
         cached_lines_data (obj h1) = Some v \<and>
         lines_data_reads n h1 = (replicate n (Inr v), h1)"
proof -
  from assms obtain w' where
    h1: "h1 = h\<lparr>obj := (obj h)\<lparr>cached_lines_data := Some v\<rparr>, world := w',
                resolver_calls := Suc (resolver_calls h)\<rparr>"
    by (auto simp: lines_data_def split: option.splits prod.splits sum.splits)
  from h1 have cached: "cached_lines_data (obj h1) = Some v" by simp
  from h1 have "resolver_calls h1 = Suc (resolver_calls h)" by simp
  with cached lines_data_reads_cached [OF cached] show ?thesis by simp
qed

text \<open>
  The theorem at a resolver that returns different lines on each invocation: the first
  read returns the lines of the first invocation, and three more reads return the same.
\<close>

theorem lines_data_resolved_once_witness:
  "cached_lines_data (obj (new_heap (Some counting_resolver))) = None \<and>
   lines_data (new_heap (Some counting_resolver)) = (Inr first_lines, heap_after_first_read) \<and>
   resolver_calls heap_after_first_read = Suc (resolver_calls (new_heap (Some counting_resolver))) \<and>
   cached_lines_data (obj heap_after_first_read) = Some first_lines \<and>
   lines_data_reads 3 heap_after_first_read
     = (replicate 3 (Inr first_lines), heap_after_first_read)"
proof -
  have fresh: "cached_lines_data (obj (new_heap (Some counting_resolver))) = None"
    by (simp add: new_heap_def PaymentData_init_def)
  have first: "lines_data (new_heap (Some counting_resolver))
                 = (Inr first_lines, heap_after_first_read)"
    by (simp add: lines_data_def new_heap_def PaymentData_init_def counting_resolver_def
        first_lines_def heap_after_first_read_def)
  from fresh first lines_data_resolved_once [OF fresh first, of 3] show ?thesis by simp
qed

section \<open>Properties of the ledger and the refund calculator\<close>

lemma append_outcome: "append_outcome_ok step (t, ev, append step t ev)"
  by (simp add: append_def Let_def)

text \<open>
  C1: for every transaction and every sequence of events appended to it, each append
  either succeeds, and then the entry's totals satisfy charged + refunded + cancelled
  \<open>\<le>\<close> authorized and refunded \<open>\<le>\<close> charged and its event list has grown by the event,
  or fails with \<open>InvariantViolation\<close> because the resulting totals would be out of
  these bounds, and then the entry (totals and event list) is as it was before. This
  holds whatever an event does to the totals.
\<close>

theorem append_all_keeps_amount_invariants:
  "list_all (append_outcome_ok step) (append_all step t evs)"
proof (induction evs arbitrary: t)
  case Nil
  show ?case by simp
next
  case (Cons ev evs)
  obtain r s where rs: "append step t ev = (r, s)"
    by (cases "append step t ev")
  have "append_outcome_ok step (t, ev, r, s)"
    using append_outcome [of step t ev] rs by simp
  with Cons.IH [of s] rs show ?case by simp
qed

text \<open>
  The theorem on a transaction with 100 authorized: a charge of 60 is appended, a
  refund of 1000 is refused and leaves the entry with the charge only.
\<close>

theorem append_all_keeps_amount_invariants_witness:
  "list_all (append_outcome_ok add_event_amount)
     (append_all add_event_amount authorized_100 [event Charge 60 2, event Refund 1000 3]) \<and>
   append_all add_event_amount authorized_100 [event Charge 60 2, event Refund 1000 3]
     = [(authorized_100, event Charge 60 2, Inr charged_60, charged_60),
        (charged_60, event Refund 1000 3, Inl InvariantViolation, charged_60)]"
proof -
  have trace:
    "append_all add_event_amount authorized_100 [event Charge 60 2, event Refund 1000 3]
       = [(authorized_100, event Charge 60 2, Inr charged_60, charged_60),
          (charged_60, event Refund 1000 3, Inl InvariantViolation, charged_60)]"
    by (simp add: append_def Let_def add_event_amount_def amount_invariants_def
        authorized_100_def charged_60_def new_transaction_def event_def)
  have checked:
    "list_all (append_outcome_ok add_event_amount)
       (append_all add_event_amount authorized_100 [event Charge 60 2, event Refund 1000 3])"
    by (rule append_all_keeps_amount_invariants)
  from checked trace show ?thesis by (rule conjI)
qed

text \<open>
  C6: \<open>computeRefundAmount\<close> fails, with \<open>NothingToRefund\<close>, exactly when the
  computed amount is zero and no explicit override was supplied (the amount is
  calculated automatically); in particular it fails for a default-constructed
  \<open>RefundData\<close> (no order lines, no fulfillment lines, shipping costs not refunded,
  amount calculated automatically), on every transaction whose refunded amount does not
  exceed its charged amount, as section 3 requires of a transaction.
\<close>

theorem computeRefundAmount_NothingToRefund:
  "(computeRefundAmount rd ld t = Inl NothingToRefund)
     = (computed_amount rd ld t = 0 \<and> refund_amount_is_automatically_calculated rd) \<and>
   isl (computeRefundAmount rd ld t)
     = (computed_amount rd ld t = 0 \<and> refund_amount_is_automatically_calculated rd) \<and>
   (refunded t \<le> charged t \<longrightarrow>
      computeRefundAmount RefundData_default ld t = Inl NothingToRefund)"
  by (simp add: computeRefundAmount_def computed_amount_def requested_amount_def
      refundable_amount_def lines_amount_def RefundData_default_def)

text \<open>The theorem on a transaction with 100 charged and 20 refunded.\<close>

theorem computeRefundAmount_NothingToRefund_witness:
  "refunded charged_100_refunded_20 \<le> charged charged_100_refunded_20 \<and>
   computeRefundAmount RefundData_default first_lines charged_100_refunded_20
     = Inl NothingToRefund"
proof -
  have bound: "refunded charged_100_refunded_20 \<le> charged charged_100_refunded_20"
    by (simp add: charged_100_refunded_20_def)
  from computeRefundAmount_NothingToRefund
         [of RefundData_default first_lines charged_100_refunded_20]
  have "refunded charged_100_refunded_20 \<le> charged charged_100_refunded_20 \<longrightarrow>
        computeRefundAmount RefundData_default first_lines charged_100_refunded_20
          = Inl NothingToRefund"
    by blast
  with bound show ?thesis by blast
qed

end
